theory Spec2Isabelle
  imports Complex_Main "HOL-Library.Multiset"
begin

section \<open>Tensors and the framework operations the source calls\<close>

text \<open>
  A tensor is its shape and its elements in row-major order, as the framework stores it.
  Every operation that the framework rejects (a shape it cannot reconcile, an index
  outside a dimension) returns an error value. The reconstruction loss and the number of
  kept patches are computed in binary floating point, with its rounding, overflow and
  not-a-number; the weights and activations of the networks are rationals.
\<close>

datatype 'a tensor = Tensor (shape: "nat list") (elems: "'a list")

datatype error =
    IndexOutOfRange
  | ConcatRankMismatch "nat list" "nat list"
  | ConcatDimMismatch "nat list" "nat list"
  | GatherShapeError "nat list" "nat list"
  | GatherIndexOutOfRange
  | ReshapeError nat "int list"
  | BroadcastError "nat list" "nat list"
  | MatMulShapeError "nat list" nat
  | NotANumber
  | UndefinedDimension
  | InputShapeMismatch "nat list" "nat list"
  | InvalidArgument
  | NotFittedError
  | FileNotFound
  | UnknownLabel

definition rank :: "'a tensor \<Rightarrow> nat" where
  "rank t = length (shape t)"

text \<open>The rows of a tensor along its last axis, and the chunks of a given size.\<close>

definition chunks :: "nat \<Rightarrow> nat \<Rightarrow> 'a list \<Rightarrow> 'a list list" where
  "chunks n k xs = map (\<lambda>i. take k (drop (i * k) xs)) [0..<n]"

text \<open>
  \<open>tf.argsort(values, axis=1)\<close> on one row: the indices of the row in ascending order
  of their values. Equal values keep their index order.
\<close>

definition argsort :: "('a::linorder) list \<Rightarrow> nat list" where
  "argsort xs = sort_key (\<lambda>i. xs ! i) [0..<length xs]"

section \<open>Binary floating point\<close>

text \<open>
  A floating-point value is a rational, an infinity or not-a-number. The two zeros are one
  value: they compare equal, and no operation below divides by a zero that came from a
  computation.
\<close>

datatype fp = Fin rat | PInf | NInf | NaN

function bit_length :: "int \<Rightarrow> int" where
  "bit_length n = (if n \<le> 0 then 0 else 1 + bit_length (n div 2))"
  by pat_completeness auto
termination by (relation "measure nat") auto

declare bit_length.simps [simp del]

text \<open>The exponent \<open>e\<close> with \<open>2^e \<le> x < 2^(e+1)\<close>, for a positive \<open>x\<close>.\<close>

definition floor_log2 :: "rat \<Rightarrow> int" where
  "floor_log2 x =
     (let (a, b) = quotient_of x;
          d = bit_length a - bit_length b
      in if 2 powi d \<le> x then d else d - 1)"

definition round_half_even :: "rat \<Rightarrow> int" where
  "round_half_even x =
     (let f = \<lfloor>x\<rfloor>; d = x - of_int f
      in if d < 1 / 2 then f else if 1 / 2 < d then f + 1 else if even f then f else f + 1)"

text \<open>
  Rounding to the nearest value with \<open>p\<close> significant bits and exponents from \<open>emin\<close> to
  \<open>emax\<close>, ties to even, gradual underflow, overflow to infinity.
\<close>

definition round_float :: "nat \<Rightarrow> int \<Rightarrow> int \<Rightarrow> rat \<Rightarrow> fp" where
  "round_float p emin emax x =
     (if x = 0 then Fin 0
      else let e = max (floor_log2 \<bar>x\<bar>) emin;
               q = 2 powi (e - int p + 1);
               r = of_int (round_half_even (x / q)) * q
           in if 2 powi (emax + 1) \<le> \<bar>r\<bar> then (if 0 < x then PInf else NInf) else Fin r)"

definition round32 :: "rat \<Rightarrow> fp" where
  "round32 x = round_float 24 (- 126) 127 x"

definition round64 :: "rat \<Rightarrow> fp" where
  "round64 x = round_float 53 (- 1022) 1023 x"

definition is_finite :: "fp \<Rightarrow> bool" where
  "is_finite x = (case x of Fin a \<Rightarrow> True | _ \<Rightarrow> False)"

text \<open>The float32 operations: the exact result, rounded.\<close>

fun f_neg :: "fp \<Rightarrow> fp" where
  "f_neg (Fin a) = Fin (- a)"
| "f_neg PInf = NInf"
| "f_neg NInf = PInf"
| "f_neg NaN = NaN"

fun f_add :: "fp \<Rightarrow> fp \<Rightarrow> fp" where
  "f_add (Fin a) (Fin b) = round32 (a + b)"
| "f_add NaN y = NaN"
| "f_add x NaN = NaN"
| "f_add PInf NInf = NaN"
| "f_add NInf PInf = NaN"
| "f_add PInf y = PInf"
| "f_add x PInf = PInf"
| "f_add NInf y = NInf"
| "f_add x NInf = NInf"

definition f_sub :: "fp \<Rightarrow> fp \<Rightarrow> fp" where
  "f_sub x y = f_add x (f_neg y)"

fun f_mul :: "fp \<Rightarrow> fp \<Rightarrow> fp" where
  "f_mul (Fin a) (Fin b) = round32 (a * b)"
| "f_mul NaN y = NaN"
| "f_mul x NaN = NaN"
| "f_mul (Fin a) PInf = (if a = 0 then NaN else if 0 < a then PInf else NInf)"
| "f_mul (Fin a) NInf = (if a = 0 then NaN else if 0 < a then NInf else PInf)"
| "f_mul PInf (Fin b) = (if b = 0 then NaN else if 0 < b then PInf else NInf)"
| "f_mul NInf (Fin b) = (if b = 0 then NaN else if 0 < b then NInf else PInf)"
| "f_mul PInf PInf = PInf"
| "f_mul NInf NInf = PInf"
| "f_mul PInf NInf = NInf"
| "f_mul NInf PInf = NInf"

text \<open>Division by a count, a float that is not negative.\<close>

fun f_div_count :: "fp \<Rightarrow> fp \<Rightarrow> fp" where
  "f_div_count (Fin a) (Fin c) =
     (if c = 0 then (if a = 0 then NaN else if 0 < a then PInf else NInf) else round32 (a / c))"
| "f_div_count NaN c = NaN"
| "f_div_count x NaN = NaN"
| "f_div_count (Fin a) c = Fin 0"
| "f_div_count x (Fin c) = x"
| "f_div_count x c = NaN"

text \<open>
  \<open>tf.cast(x, tf.int32)\<close> of a float: truncation towards zero; a value that has no int32
  (out of range, infinite, not a number) gives the least int32.
\<close>

definition cast_int32 :: "fp \<Rightarrow> int" where
  "cast_int32 x =
     (case x of
        Fin q \<Rightarrow>
          (let t = (if 0 \<le> q then \<lfloor>q\<rfloor> else - \<lfloor>- q\<rfloor>)
           in if - (2 ^ 31) \<le> t \<and> t < 2 ^ 31 then t else - (2 ^ 31))
      | _ \<Rightarrow> - (2 ^ 31))"

section \<open>Slices, concatenation and gather\<close>

text \<open>The slice \<open>row[:k]\<close>; a negative \<open>k\<close> counts from the end of the row.\<close>

definition slice_to :: "int \<Rightarrow> 'a list \<Rightarrow> 'a list" where
  "slice_to k xs = (if 0 \<le> k then take (nat k) xs else take (length xs - nat (- k)) xs)"

text \<open>
  \<open>tf.concat([a, b], axis=-1)\<close>: both operands have the same rank, at least 1, and agree
  on every dimension but the last.
\<close>

definition tf_concat_last :: "'a tensor \<Rightarrow> 'a tensor \<Rightarrow> error + 'a tensor" where
  "tf_concat_last a b =
     (if rank a \<noteq> rank b \<or> rank a = 0 then Inl (ConcatRankMismatch (shape a) (shape b))
      else if butlast (shape a) \<noteq> butlast (shape b)
        then Inl (ConcatDimMismatch (shape a) (shape b))
      else let m = last (shape a); n = last (shape b); outer = prod_list (butlast (shape a))
        in Inr (Tensor (butlast (shape a) @ [m + n])
                  (concat (map (\<lambda>i. take m (drop (i * m) (elems a)) @ take n (drop (i * n) (elems b)))
                     [0..<outer]))))"

text \<open>
  The row-major offset of an index tuple into the leading dimensions \<open>ds\<close>, or nothing
  when a component is outside its dimension.
\<close>

fun flat_offset :: "nat list \<Rightarrow> nat list \<Rightarrow> nat option" where
  "flat_offset [] [] = Some 0"
| "flat_offset (d # ds) (i # is) =
     (if i < d then (case flat_offset ds is of None \<Rightarrow> None
                     | Some off \<Rightarrow> Some (i * prod_list ds + off))
      else None)"
| "flat_offset _ _ = None"

fun sequence_sum :: "(error + 'a) list \<Rightarrow> error + 'a list" where
  "sequence_sum [] = Inr []"
| "sequence_sum (Inl e # _) = Inl e"
| "sequence_sum (Inr x # rs) = (case sequence_sum rs of Inl e \<Rightarrow> Inl e | Inr xs \<Rightarrow> Inr (x # xs))"

text \<open>
  \<open>tf.gather_nd(params, indices, batch_dims=1)\<close>: \<open>params\<close> has shape \<open>B # ps\<close>,
  \<open>indices\<close> has shape \<open>B # outer @ [n]\<close> with \<open>n \<le> length ps\<close>; every index tuple of
  batch \<open>b\<close> selects the slice of \<open>params[b]\<close> at that tuple.
\<close>

definition tf_gather_nd_batch1 :: "'a tensor \<Rightarrow> nat tensor \<Rightarrow> error + 'a tensor" where
  "tf_gather_nd_batch1 params indices =
     (case (shape params, shape indices) of
        (B # ps, B' # is) \<Rightarrow>
          (if B \<noteq> B' \<or> is = [] \<or> length ps < last is
             then Inl (GatherShapeError (shape params) (shape indices))
           else let n = last is; outer = butlast is;
                    per_batch = prod_list ps; slice = prod_list (drop n ps);
                    tuples = prod_list outer
             in (case sequence_sum (map (\<lambda>j.
                        let b = j div tuples;
                            tup = take n (drop (j * n) (elems indices))
                        in (case flat_offset (take n ps) tup of
                              None \<Rightarrow> Inl GatherIndexOutOfRange
                            | Some off \<Rightarrow>
                                Inr (take slice (drop (b * per_batch + off * slice) (elems params)))))
                      [0..<B * tuples]) of
                   Inl e \<Rightarrow> Inl e
                 | Inr slices \<Rightarrow> Inr (Tensor (B # outer @ drop n ps) (concat slices))))
      | _ \<Rightarrow> Inl (GatherShapeError (shape params) (shape indices)))"

section \<open>Element-wise operations, projection, reshape and reduction\<close>

text \<open>The coordinates of a row-major offset in a shape, and back.\<close>

fun unravel :: "nat list \<Rightarrow> nat \<Rightarrow> nat list" where
  "unravel [] j = []"
| "unravel (d # ds) j = (j div prod_list ds) # unravel ds (j mod prod_list ds)"

fun ravel :: "nat list \<Rightarrow> nat list \<Rightarrow> nat" where
  "ravel (d # ds) (i # is) = i * prod_list ds + ravel ds is"
| "ravel _ _ = 0"

text \<open>
  Broadcasting of two shapes, aligned at the last axis: two dimensions agree when they
  are equal or one of them is 1. The shapes are given last axis first.
\<close>

fun broadcast_rev :: "nat list \<Rightarrow> nat list \<Rightarrow> nat list option" where
  "broadcast_rev [] ys = Some ys"
| "broadcast_rev xs [] = Some xs"
| "broadcast_rev (x # xs) (y # ys) =
     (if x = y \<or> y = 1 then map_option ((#) x) (broadcast_rev xs ys)
      else if x = 1 then map_option ((#) y) (broadcast_rev xs ys)
      else None)"

definition broadcast_shape :: "nat list \<Rightarrow> nat list \<Rightarrow> nat list option" where
  "broadcast_shape s t = map_option rev (broadcast_rev (rev s) (rev t))"

text \<open>The element of \<open>t\<close> that a coordinate of the broadcast shape reads.\<close>

definition broadcast_elem :: "'a tensor \<Rightarrow> nat list \<Rightarrow> 'a" where
  "broadcast_elem t idx =
     (let s = shape t; own = drop (length idx - length s) idx
      in elems t ! ravel s (map2 (\<lambda>d i. if d = 1 then 0 else i) s own))"

text \<open>
  An element-wise binary operation with broadcasting. On equal shapes it pairs the
  elements in order; a right operand whose shape is a suffix of the left one's is repeated
  along the leading axes.
\<close>

definition tf_binop :: "('a \<Rightarrow> 'a \<Rightarrow> 'a) \<Rightarrow> 'a tensor \<Rightarrow> 'a tensor \<Rightarrow> error + 'a tensor" where
  "tf_binop f a b =
     (if shape a = shape b then Inr (Tensor (shape a) (map2 f (elems a) (elems b)))
      else if length (shape b) < length (shape a)
              \<and> drop (length (shape a) - length (shape b)) (shape a) = shape b
        then Inr (Tensor (shape a)
               (map2 f (elems a)
                  (concat (replicate (prod_list (take (length (shape a) - length (shape b)) (shape a)))
                     (elems b)))))
      else (case broadcast_shape (shape a) (shape b) of
              None \<Rightarrow> Inl (BroadcastError (shape a) (shape b))
            | Some rs \<Rightarrow>
                Inr (Tensor rs (map (\<lambda>j. f (broadcast_elem a (unravel rs j))
                                           (broadcast_elem b (unravel rs j)))
                                 [0..<prod_list rs]))))"

definition tf_add :: "rat tensor \<Rightarrow> rat tensor \<Rightarrow> error + rat tensor" where
  "tf_add = tf_binop (+)"

text \<open>
  \<open>layers.Dense(units)\<close> with kernel of shape \<open>[d, units]\<close> and a bias of length
  \<open>units\<close>, applied along the last axis.
\<close>

definition dense :: "rat tensor \<Rightarrow> rat list \<Rightarrow> rat tensor \<Rightarrow> error + rat tensor" where
  "dense kern bias x =
     (case shape kern of
        [d, u] \<Rightarrow>
          (if shape x = [] \<or> last (shape x) \<noteq> d then Inl (MatMulShapeError (shape x) d)
           else Inr (Tensor (butlast (shape x) @ [u])
                  (concat (map (\<lambda>row. map (\<lambda>j. sum_list (map (\<lambda>i. row ! i * elems kern ! (i * u + j)) [0..<d])
                                               + bias ! j) [0..<u])
                     (chunks (prod_list (butlast (shape x))) d (elems x))))))
      | _ \<Rightarrow> Inl (MatMulShapeError (shape x) 0))"

text \<open>
  \<open>tf.reshape(t, target)\<close>, where at most one entry of \<open>target\<close> is \<open>-1\<close> and stands
  for the dimension that makes the element counts agree. When the target has a dimension 0,
  the dimensions 0 of the input are left out of the count from which the missing
  dimension is inferred.
\<close>

definition tf_reshape :: "'a tensor \<Rightarrow> int list \<Rightarrow> error + 'a tensor" where
  "tf_reshape t target =
     (let total = prod_list (shape t);
          holes = length (filter (\<lambda>d. d = - 1) target);
          sizes_has_zero = (0 \<in> set target);
          product = nat (prod_list (filter (\<lambda>d. 0 < d) target));
          input_has_zero = (sizes_has_zero \<and> 0 \<in> set (shape t));
          input_num = (if sizes_has_zero then prod_list (filter (\<lambda>d. 0 < d) (shape t)) else total);
          missing = input_num div product;
          result = map (\<lambda>d. if d = - 1 then missing else nat d) target
      in if 1 < holes \<or> list_ex (\<lambda>d. d < - 1) target then Inl (ReshapeError total target)
         else if holes = 1 \<and> \<not> input_has_zero \<and> product * missing \<noteq> input_num
           then Inl (ReshapeError total target)
         else if prod_list result = total then Inr (Tensor result (elems t))
         else Inl (ReshapeError total target))"

text \<open>The slice \<open>t[:n]\<close> along the first axis.\<close>

definition slice_first :: "nat \<Rightarrow> 'a tensor \<Rightarrow> 'a tensor" where
  "slice_first n t =
     (case shape t of
        [] \<Rightarrow> t
      | d # ds \<Rightarrow> Tensor (min n d # ds) (take (min n d * prod_list ds) (elems t)))"

text \<open>
  \<open>tf.reduce_mean\<close> over all elements of a float32 tensor: the sum divided by the count.
  The framework fixes the order of the summation; here the elements are added from left
  to right. The mean of no element is not a number.
\<close>

definition reduce_mean :: "fp tensor \<Rightarrow> fp" where
  "reduce_mean t =
     f_div_count (foldl f_add (Fin 0) (elems t)) (round32 (of_nat (length (elems t))))"

text \<open>The vector at position \<open>j\<close> of a table of shape \<open>[N, W]\<close>.\<close>

definition table_row :: "'a tensor \<Rightarrow> nat \<Rightarrow> 'a list" where
  "table_row t j = take (last (shape t)) (drop (j * last (shape t)) (elems t))"

text \<open>The vector at position \<open>j\<close> of sample \<open>b\<close> in a batch of shape \<open>[B, K, W]\<close>.\<close>

definition seq_row :: "'a tensor \<Rightarrow> nat \<Rightarrow> nat \<Rightarrow> 'a list" where
  "seq_row t b j =
     (let K = shape t ! 1; W = shape t ! 2 in take W (drop ((b * K + j) * W) (elems t)))"

definition wf_tensor :: "'a tensor \<Rightarrow> bool" where
  "wf_tensor t = (length (elems t) = prod_list (shape t))"

text \<open>\<open>tf.gather(seq, ids)\<close> on one row: the elements of \<open>seq\<close> at the positions \<open>ids\<close>.\<close>

definition gather_row :: "'a list \<Rightarrow> nat list \<Rightarrow> 'a list" where
  "gather_row xs ids = map (\<lambda>i. xs ! i) ids"

section \<open>Swin\_MAE: random masking\<close>

text \<open>
  The random source of \<open>tf.random.uniform((B, L))\<close> is a parameter: \<open>rng b i\<close> is the
  value drawn for sample \<open>b\<close> at position \<open>i\<close>.
\<close>

type_synonym rng = "nat \<Rightarrow> nat \<Rightarrow> rat"

text \<open>
  \<open>len_keep\<close>: the mask ratio is a Python float (the double nearest to what the program
  writes), \<open>1 - mask_ratio\<close> is a double subtraction, its result is converted to float32
  for the product with the float32 value of \<open>L\<close>, and the product is truncated.
\<close>

definition one_minus :: "fp \<Rightarrow> fp" where
  "one_minus r = (case r of Fin a \<Rightarrow> round64 (1 - a) | PInf \<Rightarrow> NInf | NInf \<Rightarrow> PInf | NaN \<Rightarrow> NaN)"

definition to_float32 :: "fp \<Rightarrow> fp" where
  "to_float32 d = (case d of Fin a \<Rightarrow> round32 a | other \<Rightarrow> other)"

definition len_keep :: "rat \<Rightarrow> nat \<Rightarrow> int" where
  "len_keep mask_ratio L =
     cast_int32 (f_mul (round32 (of_nat L)) (to_float32 (one_minus (round64 mask_ratio))))"

definition noise_row :: "rng \<Rightarrow> nat \<Rightarrow> nat \<Rightarrow> rat list" where
  "noise_row rng L b = map (rng b) [0..<L]"

definition ids_shuffle_row :: "rng \<Rightarrow> nat \<Rightarrow> nat \<Rightarrow> nat list" where
  "ids_shuffle_row rng L b = argsort (noise_row rng L b)"

definition ids_restore_row :: "rng \<Rightarrow> nat \<Rightarrow> nat \<Rightarrow> nat list" where
  "ids_restore_row rng L b = argsort (ids_shuffle_row rng L b)"

definition ids_keep_row :: "rat \<Rightarrow> rng \<Rightarrow> nat \<Rightarrow> nat \<Rightarrow> nat list" where
  "ids_keep_row mask_ratio rng L b = slice_to (len_keep mask_ratio L) (ids_shuffle_row rng L b)"

text \<open>A tensor of rank 2 from its rows, all of length \<open>w\<close>.\<close>

definition of_rows :: "nat \<Rightarrow> nat \<Rightarrow> (nat \<Rightarrow> 'a list) \<Rightarrow> 'a tensor" where
  "of_rows B w row = Tensor [B, w] (concat (map row [0..<B]))"

text \<open>The width of \<open>ids_shuffle[:, :len_keep]\<close> for rows of length \<open>L\<close>.\<close>

definition keep_width :: "rat \<Rightarrow> nat \<Rightarrow> nat" where
  "keep_width mask_ratio L = length (slice_to (len_keep mask_ratio L) [0..<L])"

text \<open>
  \<open>_random_masking\<close>. \<open>batch_range\<close> is \<open>tf.reshape(tf.range(B)[:, None], (-1, 1))\<close>, of
  shape \<open>[B, 1]\<close>; \<open>expanded\<close> is \<open>tf.expand_dims(ids_keep, -1)\<close>, of shape
  \<open>[B, len_keep, 1]\<close>; their concatenation along the last axis is the index tensor of the
  gather with \<open>batch_dims=1\<close>.
\<close>

definition random_masking :: "rat \<Rightarrow> rng \<Rightarrow> rat tensor \<Rightarrow> error + (rat tensor \<times> nat tensor)" where
  "random_masking mask_ratio rng patches =
     (case shape patches of
        B # L # D # _ \<Rightarrow>
          (let ids_restore = of_rows B L (ids_restore_row rng L);
               K = keep_width mask_ratio L;
               ids_keep = of_rows B K (ids_keep_row mask_ratio rng L);
               batch_range = Tensor [B, 1] [0..<B];
               expanded = Tensor (shape ids_keep @ [1]) (elems ids_keep)
           in (case tf_concat_last batch_range expanded of
                 Inl e \<Rightarrow> Inl e
               | Inr indices \<Rightarrow>
                   (case tf_gather_nd_batch1 patches indices of
                      Inl e \<Rightarrow> Inl e
                    | Inr x_masked \<Rightarrow> Inr (x_masked, ids_restore))))
      | _ \<Rightarrow> Inl IndexOutOfRange)"


section \<open>Swin\_MAE: blocks, encoder, decoder and heads\<close>

definition bind_err :: "error + 'a \<Rightarrow> ('a \<Rightarrow> error + 'b) \<Rightarrow> error + 'b" where
  "bind_err m f = (case m of Inl e \<Rightarrow> Inl e | Inr x \<Rightarrow> f x)"

text \<open>
  Layer normalisation, multi-head attention and the feed-forward network are the
  framework's layers; a block holds them as functions on tensors.
\<close>

record swin_block =
  norm1 :: "rat tensor \<Rightarrow> error + rat tensor"
  attn :: "rat tensor \<Rightarrow> rat tensor \<Rightarrow> error + rat tensor"
  norm2 :: "rat tensor \<Rightarrow> error + rat tensor"
  mlp :: "rat tensor \<Rightarrow> error + rat tensor"

definition swin_block_call :: "swin_block \<Rightarrow> rat tensor \<Rightarrow> error + rat tensor" where
  "swin_block_call blk x =
     bind_err (norm1 blk x) (\<lambda>q.
     bind_err (norm1 blk x) (\<lambda>v.
     bind_err (attn blk q v) (\<lambda>a.
     bind_err (tf_add x a) (\<lambda>x1.
     bind_err (norm2 blk x1) (\<lambda>n.
     bind_err (mlp blk n) (\<lambda>m.
     tf_add x1 m))))))"

fun apply_blocks :: "swin_block list \<Rightarrow> rat tensor \<Rightarrow> error + rat tensor" where
  "apply_blocks [] x = Inr x"
| "apply_blocks (blk # blks) x = bind_err (swin_block_call blk x) (apply_blocks blks)"

datatype layer_kind = InputLayer | GlobalAveragePooling1D | Lambda | DenseLayer

text \<open>
  The object after construction: its configuration, the weights of the embedding, of the
  positional table (\<open>pos_embed\<close>, the embedding of \<open>range(input_shape[0])\<close>), of the blocks
  and of the output projections, and the layer list of the classification head.
\<close>

record swin_mae =
  input_shape :: "nat \<times> nat"
  num_classes :: nat
  model_dir :: string
  mask_ratio :: rat
  embed_kernel :: "rat tensor"
  embed_bias :: "rat list"
  pos_embed :: "rat tensor"
  encoder_blocks :: "swin_block list"
  decoder_blocks :: "swin_block list"
  decoder_kernel :: "rat tensor"
  decoder_bias :: "rat list"
  classifier :: "layer_kind list"
  head_kernel :: "rat tensor"
  head_bias :: "rat list"
  encoder_trainable :: bool

text \<open>\<open>masked_x += pos_embed[:tf.shape(masked_x)[1]]\<close>\<close>

definition add_positional :: "rat tensor \<Rightarrow> rat tensor \<Rightarrow> error + rat tensor" where
  "add_positional pos masked_x =
     (if length (shape masked_x) < 2 then Inl IndexOutOfRange
      else tf_add masked_x (slice_first (shape masked_x ! 1) pos))"

text \<open>
  The encoder of \<open>_build_mae\<close>: the input of shape \<open>[B] @ input_shape\<close> is projected,
  masked, given its positions and passed through the encoder blocks.
\<close>

definition encoder_forward :: "swin_mae \<Rightarrow> rng \<Rightarrow> rat tensor \<Rightarrow> error + rat tensor" where
  "encoder_forward m rng inputs =
     (if length (shape inputs) = 3 \<and> tl (shape inputs) = [fst (input_shape m), snd (input_shape m)]
        then
          bind_err (dense (embed_kernel m) (embed_bias m) inputs) (\<lambda>x.
          bind_err (random_masking (mask_ratio m) rng x) (\<lambda>(masked_x, ids_restore).
          bind_err (add_positional (pos_embed m) masked_x) (\<lambda>y.
          apply_blocks (encoder_blocks m) y)))
      else Inl (InputShapeMismatch (shape inputs) [fst (input_shape m), snd (input_shape m)]))"



text \<open>
  \<open>_add_classification_head\<close>: the layers of the head model in the order of
  \<open>Model.layers\<close>, the input layer first.
\<close>

definition add_classification_head :: "bool \<Rightarrow> layer_kind list" where
  "add_classification_head trainable =
     [InputLayer, GlobalAveragePooling1D] @ (if \<not> trainable then [Lambda] else []) @ [DenseLayer]"

text \<open>\<open>GlobalAveragePooling1D\<close>: the mean over axis 1 of a tensor of shape \<open>[B, S, W]\<close>.\<close>

definition global_average_pooling :: "rat tensor \<Rightarrow> error + rat tensor" where
  "global_average_pooling t =
     (case shape t of
        [B, S, W] \<Rightarrow>
          (if S = 0 then Inl NotANumber
           else Inr (Tensor [B, W]
                  (concat (map (\<lambda>b. map (\<lambda>c. sum_list (map (\<lambda>j. elems t ! ((b * S + j) * W + c)) [0..<S])
                                              / of_nat S) [0..<W]) [0..<B]))))
      | _ \<Rightarrow> Inl (InputShapeMismatch (shape t) []))"

text \<open>The index of the first greatest element of a row (\<open>np.argmax\<close>).\<close>

fun argmax_from :: "nat \<Rightarrow> nat \<Rightarrow> rat \<Rightarrow> rat list \<Rightarrow> nat" where
  "argmax_from i best v [] = best"
| "argmax_from i best v (x # xs) =
     (if v < x then argmax_from (Suc i) i x xs else argmax_from (Suc i) best v xs)"

definition argmax :: "rat list \<Rightarrow> nat" where
  "argmax xs = (case xs of [] \<Rightarrow> 0 | x # rest \<Rightarrow> argmax_from 1 0 x rest)"

text \<open>
  The forward pass of the classification model: pooling, \<open>stop_gradient\<close> (the identity
  on values) and the output projection. The soft-max is increasing in each score, so the
  predicted class is the greatest score of the projection. \<open>predict\<close> is
  \<open>np.argmax(model.predict(x_test), axis=1)\<close> of \<open>evaluate\<close>, where \<open>model\<close> is the
  classifier applied to the encoder's output; each forward pass has its own draw.
\<close>

definition classifier_forward :: "swin_mae \<Rightarrow> rat tensor \<Rightarrow> error + rat tensor" where
  "classifier_forward m z =
     bind_err (global_average_pooling z) (\<lambda>p. dense (head_kernel m) (head_bias m) p)"

definition predict :: "swin_mae \<Rightarrow> rng \<Rightarrow> rat tensor \<Rightarrow> error + nat list" where
  "predict m rng x_test =
     bind_err (encoder_forward m rng x_test) (\<lambda>z.
     bind_err (classifier_forward m z) (\<lambda>scores.
     Inr (map argmax (chunks (hd (shape scores)) (last (shape scores)) (elems scores)))))"

section \<open>Swin\_MAE: losses and the training driver\<close>

text \<open>
  \<open>mae_loss\<close> of \<open>pretrain\<close>, on float32 tensors: the mask is 1 where the target differs
  from 0 (not-a-number differs from 0) and 0 elsewhere.
\<close>

definition mae_loss :: "fp tensor \<Rightarrow> fp tensor \<Rightarrow> error + fp" where
  "mae_loss y_true y_pred =
     (let mask = Tensor (shape y_true) (map (\<lambda>t. if t \<noteq> Fin 0 then Fin 1 else Fin 0) (elems y_true))
      in bind_err (tf_binop f_sub y_true y_pred) (\<lambda>d.
         bind_err (tf_binop f_mul (Tensor (shape d) (map (\<lambda>x. f_mul x x) (elems d))) mask) (\<lambda>w.
         Inr (reduce_mean w))))"

text \<open>\<open>os.path.join\<close> of a directory and a file name.\<close>

definition os_path_join :: "string \<Rightarrow> string \<Rightarrow> string" where
  "os_path_join dir name =
     (if name \<noteq> [] \<and> hd name = CHR ''/'' then name
      else if dir = [] \<or> last dir = CHR ''/'' then dir @ name
      else dir @ ''/'' @ name)"

text \<open>
  The training driver. The optimisation itself belongs to the framework; the model records
  what the driver decides: the head it builds, the trainable flag of the encoder and the
  path the checkpoint callback writes to.
\<close>

definition pretrain :: "swin_mae \<Rightarrow> swin_mae \<times> string" where
  "pretrain m = (m, os_path_join (model_dir m) ''pretrained_encoder.h5'')"

definition finetune :: "swin_mae \<Rightarrow> swin_mae \<times> string" where
  "finetune m =
     (let m' = m\<lparr>encoder_trainable := \<not> (classifier m ! 1 = Lambda)\<rparr>
      in (m', os_path_join (model_dir m')
                ((if \<not> encoder_trainable m' then ''linear'' else ''finetune'') @ ''_model.h5'')))"

definition train :: "swin_mae \<Rightarrow> string \<Rightarrow> swin_mae \<times> string" where
  "train m mode =
     (if mode = ''pretrain'' then pretrain m
      else finetune (m\<lparr>classifier := add_classification_head (mode = ''fine-tune'')\<rparr>))"


section \<open>ViT: patches, patch encoder, label encoder and model input/output\<close>

text \<open>\<open>Patches.call\<close>: the batch is reshaped to rows of \<open>patch_size * x.shape[-1]\<close> values.\<close>

definition patches_call :: "nat \<Rightarrow> rat tensor \<Rightarrow> error + rat tensor" where
  "patches_call patch_size x =
     (if shape x = [] then Inl IndexOutOfRange
      else tf_reshape x [int (hd (shape x)), - 1, int (patch_size * last (shape x))])"

text \<open>\<open>num_patches\<close> of \<open>_build_model\<close>, with its patch size 4.\<close>

definition num_patches :: "nat \<times> nat \<Rightarrow> nat" where
  "num_patches shp = (fst shp div 4) * (snd shp div 1)"

text \<open>
  \<open>PatchEncoder\<close>: the projection to \<open>projection_dim\<close> and the positional table of
  \<open>num_patches\<close> rows, looked up at \<open>range(num_patches)\<close>.
\<close>

record patch_encoder =
  pe_num_patches :: nat
  projection_kernel :: "rat tensor"
  projection_bias :: "rat list"
  position_embedding :: "rat tensor"

definition patch_encoder_call :: "patch_encoder \<Rightarrow> rat tensor \<Rightarrow> error + rat tensor" where
  "patch_encoder_call pe patch =
     bind_err (dense (projection_kernel pe) (projection_bias pe) patch) (\<lambda>projected.
     tf_add projected (slice_first (pe_num_patches pe) (position_embedding pe)))"

text \<open>The patch and embedding stage of \<open>_build_model\<close>.\<close>

definition patch_stage :: "patch_encoder \<Rightarrow> rat tensor \<Rightarrow> error + rat tensor" where
  "patch_stage pe inputs = bind_err (patches_call 4 inputs) (patch_encoder_call pe)"

text \<open>
  A network of the framework as the driver sees it: its input and output shapes (the
  batch axis first, as 0) and its forward pass.
\<close>

record keras_model =
  km_input_shape :: "nat list"
  km_output_shape :: "nat list"
  km_predict :: "rat tensor \<Rightarrow> error + rat tensor"

text \<open>
  The label encoder: the sorted classes it was fitted on, or nothing before any fit.
\<close>

type_synonym label_encoder = "int list option"

definition fit_transform :: "int list \<Rightarrow> label_encoder \<times> nat list" where
  "fit_transform y =
     (let cls = sort (remdups y)
      in (Some cls, map (\<lambda>l. length (takeWhile (\<lambda>c. c \<noteq> l) cls)) y))"

definition transform :: "label_encoder \<Rightarrow> int list \<Rightarrow> error + nat list" where
  "transform enc y =
     (case enc of
        None \<Rightarrow> Inl NotFittedError
      | Some cls \<Rightarrow>
          (if list_ex (\<lambda>l. l \<notin> set cls) y then Inl UnknownLabel
           else Inr (map (\<lambda>l. length (takeWhile (\<lambda>c. c \<noteq> l) cls)) y)))"

record vit =
  vit_input_shape :: "nat list"
  vit_num_classes :: nat
  vit_model_dir :: string
  vit_model :: keras_model
  vit_encoder :: label_encoder

text \<open>
  \<open>ViT.__init__\<close>: the network built by \<open>_build_model\<close> (\<open>built\<close>, with its fresh
  weights) and a new label encoder. The constructor fails when the input shape has fewer
  than two axes, when the positional table would have no row, and when it has one row: the
  sum with the table then leaves the number of patches unknown, and the projection after
  \<open>Flatten\<close> cannot be built.
\<close>

definition vit_init :: "keras_model \<Rightarrow> nat list \<Rightarrow> nat \<Rightarrow> string \<Rightarrow> error + vit" where
  "vit_init built shp classes dir =
     (if length shp < 2 then Inl IndexOutOfRange
      else if num_patches (shp ! 0, shp ! 1) = 0 then Inl InvalidArgument
      else if num_patches (shp ! 0, shp ! 1) = 1 then Inl UndefinedDimension
      else Inr \<lparr>vit_input_shape = shp, vit_num_classes = classes, vit_model_dir = dir,
                vit_model = built, vit_encoder = None\<rparr>)"

text \<open>
  \<open>ViT.load\<close>: \<open>files\<close> is what \<open>tf.keras.models.load_model\<close> finds at each path.
\<close>

definition vit_load :: "(string \<rightharpoonup> keras_model) \<Rightarrow> keras_model \<Rightarrow> string \<Rightarrow> error + vit" where
  "vit_load files built model_path =
     (case files model_path of
        None \<Rightarrow> Inl FileNotFound
      | Some model \<Rightarrow>
          bind_err (vit_init built (tl (km_input_shape model)) (last (km_output_shape model))
                      ''saved_models/vit'')
            (\<lambda>v. Inr (v\<lparr>vit_model := model\<rparr>)))"

text \<open>
  \<open>ViT.train\<close> as far as the label encoder goes: it is fitted on the training labels.
\<close>

definition vit_train :: "vit \<Rightarrow> int list \<Rightarrow> int list \<Rightarrow> error + vit" where
  "vit_train v y_train y_val =
     (let (enc, y_train_enc) = fit_transform y_train
      in bind_err (transform enc y_val) (\<lambda>y_val_enc. Inr (v\<lparr>vit_encoder := enc\<rparr>)))"

text \<open>
  \<open>ViT.evaluate\<close>, with the calls it makes in order. The metrics module is not part of
  the sources; \<open>calculate_metrics\<close> stands for it.
\<close>

datatype event = Predict | CalculateMetrics | PrintMetricsSummary | SaveVisualizations

definition vit_evaluate ::
  "(nat list \<Rightarrow> nat list \<Rightarrow> 'm) \<Rightarrow> vit \<Rightarrow> rat tensor \<Rightarrow> int list \<Rightarrow> (error + 'm) \<times> event list" where
  "vit_evaluate calculate_metrics v x_test y_test =
     (case transform (vit_encoder v) y_test of
        Inl e \<Rightarrow> (Inl e, [])
      | Inr y_test_enc \<Rightarrow>
          (case km_predict (vit_model v) x_test of
             Inl e \<Rightarrow> (Inl e, [Predict])
           | Inr scores \<Rightarrow>
               (let y_pred = map argmax (chunks (hd (shape scores)) (last (shape scores)) (elems scores))
                in (Inr (calculate_metrics y_test_enc y_pred),
                    [Predict, CalculateMetrics, PrintMetricsSummary, SaveVisualizations]))))"


section \<open>The index permutations of the masking stage\<close>

lemma argsort_mset: "mset (argsort xs) = mset [0..<length xs]"
  by (simp add: argsort_def)

lemma argsort_length: "length (argsort xs) = length xs"
  by (simp add: argsort_def)

lemma argsort_sorted: "sorted (map (\<lambda>i. xs ! i) (argsort xs))"
  by (simp add: argsort_def)

lemma perm_upt_props:
  assumes "mset p = mset [0..<n]"
  shows "length p = n" "distinct p" "set p = {0..<n}"
proof -
  show "length p = n" using assms by (metis length_upt mset_eq_length minus_nat.diff_0)
  show "distinct p" using assms by (metis distinct_upt mset_eq_imp_distinct_iff)
  show "set p = {0..<n}" using assms by (metis atLeastLessThan_upt mset_eq_setD)
qed

text \<open>The argsort of a permutation of \<open>[0, n)\<close> is its inverse, on both sides.\<close>

lemma argsort_perm_right_inverse:
  assumes "mset p = mset [0..<n]"
  shows "map (\<lambda>i. p ! i) (argsort p) = [0..<n]"
proof -
  have "mset (map (\<lambda>i. p ! i) (argsort p)) = mset (map (\<lambda>i. p ! i) [0..<length p])"
    by (simp add: argsort_mset)
  also have "map (\<lambda>i. p ! i) [0..<length p] = p" by (rule map_nth)
  finally have m: "mset (map (\<lambda>i. p ! i) (argsort p)) = mset [0..<n]" using assms by simp
  have "sort [0..<n] = map (\<lambda>i. p ! i) (argsort p)"
    using m argsort_sorted by (rule properties_for_sort)
  then show ?thesis by (simp add: sorted_sort_id)
qed

lemma argsort_perm_left_inverse:
  assumes "mset p = mset [0..<n]"
  shows "map (\<lambda>i. argsort p ! i) p = [0..<n]"
proof (rule nth_equalityI)
  have len: "length p = n" and dist: "distinct p" and st: "set p = {0..<n}"
    using assms by (rule perm_upt_props)+
  show "length (map (\<lambda>i. argsort p ! i) p) = length [0..<n]" using len by simp
  fix i assume "i < length (map (\<lambda>i. argsort p ! i) p)"
  then have i: "i < n" using len by simp
  then have pi: "p ! i < n" using st len by (metis atLeastLessThan_iff nth_mem)
  let ?q = "argsort p"
  have qm: "mset ?q = mset [0..<n]" using len by (simp add: argsort_mset)
  have qlen: "length ?q = n" using len by (simp add: argsort_length)
  have "set ?q = {0..<n}" using qm by (rule perm_upt_props)
  then have qj: "?q ! (p ! i) < n" using pi qlen by (metis atLeastLessThan_iff nth_mem)
  have "map (\<lambda>i. p ! i) ?q ! (p ! i) = [0..<n] ! (p ! i)"
    using argsort_perm_right_inverse[OF assms] by simp
  then have "p ! (?q ! (p ! i)) = p ! i" using pi qlen by simp
  then have "?q ! (p ! i) = i" using dist qj i len by (simp add: nth_eq_iff_index_eq)
  then show "map (\<lambda>i. argsort p ! i) p ! i = [0..<n] ! i" using i len by simp
qed

lemma ids_shuffle_perm: "mset (ids_shuffle_row rng L b) = mset [0..<L]"
  by (simp add: ids_shuffle_row_def noise_row_def argsort_mset)

lemma ids_restore_perm: "mset (ids_restore_row rng L b) = mset [0..<L]"
proof -
  have "length (ids_shuffle_row rng L b) = L"
    using ids_shuffle_perm by (rule perm_upt_props)
  then show ?thesis by (simp add: ids_restore_row_def argsort_mset)
qed

lemma gather_row_twice:
  assumes "set ids \<subseteq> {0..<length p}"
  shows "gather_row (gather_row xs p) ids = gather_row xs (gather_row p ids)"
  using assms by (auto simp add: gather_row_def)

text \<open>
  C2. For every sample \<open>b\<close> of every batch and every draw of the noise, \<open>ids_shuffle\<close> and
  \<open>ids_restore\<close> are permutations of \<open>[0, L)\<close> (each index occurs exactly once), they
  are inverse to each other, and gathering at \<open>ids_restore\<close> a sequence that was reordered
  by \<open>ids_shuffle\<close> gives the sequence back.
\<close>

theorem ids_restore_inverts_ids_shuffle:
  "mset (ids_shuffle_row rng L b) = mset [0..<L]
   \<and> mset (ids_restore_row rng L b) = mset [0..<L]
   \<and> gather_row (ids_shuffle_row rng L b) (ids_restore_row rng L b) = [0..<L]
   \<and> gather_row (ids_restore_row rng L b) (ids_shuffle_row rng L b) = [0..<L]
   \<and> gather_row (gather_row xs (ids_shuffle_row rng (length xs) b))
        (ids_restore_row rng (length xs) b) = xs"
proof -
  have right: "gather_row (ids_shuffle_row rng n b) (ids_restore_row rng n b) = [0..<n]" for n
    using argsort_perm_right_inverse[OF ids_shuffle_perm, of rng n b]
    by (simp add: gather_row_def ids_restore_row_def)
  have left: "gather_row (ids_restore_row rng n b) (ids_shuffle_row rng n b) = [0..<n]" for n
    using argsort_perm_left_inverse[OF ids_shuffle_perm, of rng n b]
    by (simp add: gather_row_def ids_restore_row_def)
  let ?s = "ids_shuffle_row rng (length xs) b" and ?r = "ids_restore_row rng (length xs) b"
  have "length ?s = length xs" using ids_shuffle_perm by (rule perm_upt_props)
  moreover have "set ?r = {0..<length xs}" using ids_restore_perm by (rule perm_upt_props)
  ultimately have "gather_row (gather_row xs ?s) ?r = gather_row xs (gather_row ?s ?r)"
    by (simp add: gather_row_twice)
  also have "\<dots> = gather_row xs [0..<length xs]" by (simp only: right)
  also have "\<dots> = xs" by (simp add: gather_row_def map_nth)
  finally show ?thesis using ids_shuffle_perm ids_restore_perm right left by simp
qed

section \<open>The number of kept indices and the gather of the kept patches\<close>

lemma ids_keep_row_length: "length (ids_keep_row r rng L b) = keep_width r L"
proof -
  have "length (ids_shuffle_row rng L b) = L" using ids_shuffle_perm by (rule perm_upt_props)
  then show ?thesis by (simp add: ids_keep_row_def keep_width_def slice_to_def)
qed

lemma len_keep_default: "len_keep (3 / 4) 23 = 5"
  by code_simp

lemma keep_width_default: "keep_width (3 / 4) 23 = 5"
  by (simp add: keep_width_def len_keep_default slice_to_def)

text \<open>
  The product is rounded to float32 before it is truncated: for 100 patches and the mask
  ratio 0.41 it is just below 59, and 58 patches are kept.
\<close>

lemma len_keep_rounds_before_truncation: "len_keep (41 / 100) 100 = 58"
  by code_simp

lemma random_masking_never_returns: "isl (random_masking r rng p)"
  by (auto simp add: random_masking_def tf_concat_last_def rank_def of_rows_def Let_def
      split: list.splits)

lemma encoder_never_returns: "isl (encoder_forward m rng inputs)"
proof (cases "dense (embed_kernel m) (embed_bias m) inputs")
  case (Inl e)
  then show ?thesis by (simp add: encoder_forward_def bind_err_def)
next
  case (Inr x)
  obtain e where "random_masking (mask_ratio m) rng x = Inl e"
    using random_masking_never_returns[of "mask_ratio m" rng x] by (auto simp add: isl_def)
  with Inr show ?thesis by (simp add: encoder_forward_def bind_err_def)
qed

text \<open>
  C1. For the embedded batch of one sample of shape \<open>(23, 64)\<close> and mask ratio 0.75 the
  masking stage selects 5 indices per sample, the index tensor \<open>ids_keep\<close> expanded to shape
  \<open>[1, 5, 1]\<close>; joining it to \<open>batch_range\<close> of shape \<open>[1, 1]\<close> is rejected, the two
  operands having different ranks, so \<open>_random_masking\<close> raises and returns no kept
  subsequence.
\<close>

theorem random_masking_raises_at_concat:
  "random_masking (3 / 4) rng (Tensor [1, 23, 64] es) = Inl (ConcatRankMismatch [1, 1] [1, 5, 1])"
  by (simp add: random_masking_def keep_width_default of_rows_def tf_concat_last_def rank_def
      Let_def)

section \<open>The forward passes of Swin\_MAE\<close>


text \<open>
  C3. Two forward passes of the classification model on the same weights and the same
  input, each with its own draw of the masking noise, both raise: neither yields a
  prediction array.
\<close>

theorem predict_raises_on_both_calls:
  "isl (predict m rng1 x_test) \<and> isl (predict m rng2 x_test)"
  using encoder_never_returns[of m rng1 x_test] encoder_never_returns[of m rng2 x_test]
  by (auto simp add: predict_def bind_err_def isl_def)

section \<open>The reconstruction loss\<close>

lemma round32_zero: "round32 0 = Fin 0"
  by (simp add: round32_def round_float_def)

lemma f_mul_zero_right: "is_finite x \<Longrightarrow> f_mul x (Fin 0) = Fin 0"
  by (cases x) (simp_all add: is_finite_def round32_zero)

text \<open>
  On equal shapes the loss is the mean of the terms: squared difference times mask.
\<close>

lemma mae_loss_equal_shapes:
  assumes "shape y_true = shape y_pred" and "length (elems y_true) = length (elems y_pred)"
  shows "mae_loss y_true y_pred =
     Inr (reduce_mean (Tensor (shape y_true)
            (map2 (\<lambda>t p. f_mul (f_mul (f_sub t p) (f_sub t p)) (if t \<noteq> Fin 0 then Fin 1 else Fin 0))
               (elems y_true) (elems y_pred))))"
proof -
  have zip3: "map2 f_mul (map (\<lambda>x. f_mul x x) (map2 f_sub ts ps))
                 (map (\<lambda>t. if t \<noteq> Fin 0 then Fin 1 else Fin 0) ts)
      = map2 (\<lambda>t p. f_mul (f_mul (f_sub t p) (f_sub t p)) (if t \<noteq> Fin 0 then Fin 1 else Fin 0)) ts ps"
    if "length ts = length ps" for ts ps :: "fp list"
    using that by (induction ts ps rule: list_induct2) auto
  show ?thesis
    using assms zip3[OF assms(2)]
    by (simp add: mae_loss_def tf_binop_def bind_err_def Let_def)
qed

lemma masked_terms_cong:
  assumes "length ts = length ps" and "length ts = length qs"
    and "\<forall>i < length ts.
           (ts ! i \<noteq> Fin 0 \<longrightarrow> ps ! i = qs ! i)
         \<and> (ts ! i = Fin 0 \<longrightarrow> is_finite (f_mul (f_sub (ts ! i) (ps ! i)) (f_sub (ts ! i) (ps ! i)))
                              \<and> is_finite (f_mul (f_sub (ts ! i) (qs ! i)) (f_sub (ts ! i) (qs ! i))))"
  shows "map2 (\<lambda>t p. f_mul (f_mul (f_sub t p) (f_sub t p)) (if t \<noteq> Fin 0 then Fin 1 else Fin 0)) ts ps
       = map2 (\<lambda>t p. f_mul (f_mul (f_sub t p) (f_sub t p)) (if t \<noteq> Fin 0 then Fin 1 else Fin 0)) ts qs"
  using assms by (auto intro!: nth_equalityI simp add: f_mul_zero_right)

text \<open>
  C7, as the code has it. For a target and a prediction of equal shape the loss is the
  float32 mean, over all positions, of the squared difference times the mask, which is 0
  exactly where the target is 0. A zero-target position whose squared difference is finite
  adds the term 0; two predictions that agree wherever the target is not zero, and whose
  squared differences are finite wherever it is zero, have the same loss. The loss reads
  the target and the prediction only, not the indices the masking stage kept.
\<close>

theorem mae_loss_masks_finite_zero_targets:
  assumes "shape y_true = shape y_pred" and "wf_tensor y_true" and "wf_tensor y_pred"
  shows "mae_loss y_true y_pred =
     Inr (reduce_mean (Tensor (shape y_true)
            (map2 (\<lambda>t p. f_mul (f_mul (f_sub t p) (f_sub t p)) (if t \<noteq> Fin 0 then Fin 1 else Fin 0))
               (elems y_true) (elems y_pred))))
    \<and> (\<forall>i < length (elems y_true).
          elems y_true ! i = Fin 0
          \<and> is_finite (f_mul (f_sub (elems y_true ! i) (elems y_pred ! i))
                              (f_sub (elems y_true ! i) (elems y_pred ! i)))
          \<longrightarrow> map2 (\<lambda>t p. f_mul (f_mul (f_sub t p) (f_sub t p)) (if t \<noteq> Fin 0 then Fin 1 else Fin 0))
                 (elems y_true) (elems y_pred) ! i = Fin 0)
    \<and> (shape y_pred' = shape y_true \<and> wf_tensor y_pred'
         \<and> (\<forall>i < length (elems y_true).
               (elems y_true ! i \<noteq> Fin 0 \<longrightarrow> elems y_pred ! i = elems y_pred' ! i)
             \<and> (elems y_true ! i = Fin 0 \<longrightarrow>
                   is_finite (f_mul (f_sub (elems y_true ! i) (elems y_pred ! i))
                                    (f_sub (elems y_true ! i) (elems y_pred ! i)))
                 \<and> is_finite (f_mul (f_sub (elems y_true ! i) (elems y_pred' ! i))
                                    (f_sub (elems y_true ! i) (elems y_pred' ! i)))))
       \<longrightarrow> mae_loss y_true y_pred = mae_loss y_true y_pred')"
proof -
  have len: "length (elems y_true) = length (elems y_pred)"
    using assms by (simp add: wf_tensor_def)
  have first: "mae_loss y_true y_pred =
     Inr (reduce_mean (Tensor (shape y_true)
            (map2 (\<lambda>t p. f_mul (f_mul (f_sub t p) (f_sub t p)) (if t \<noteq> Fin 0 then Fin 1 else Fin 0))
               (elems y_true) (elems y_pred))))"
    using assms(1) len by (rule mae_loss_equal_shapes)
  have second: "map2 (\<lambda>t p. f_mul (f_mul (f_sub t p) (f_sub t p)) (if t \<noteq> Fin 0 then Fin 1 else Fin 0))
                 (elems y_true) (elems y_pred) ! i = Fin 0"
    if "i < length (elems y_true)" and "elems y_true ! i = Fin 0"
      and "is_finite (f_mul (f_sub (elems y_true ! i) (elems y_pred ! i))
                            (f_sub (elems y_true ! i) (elems y_pred ! i)))" for i
    using that len by (simp add: f_mul_zero_right)
  have third: "mae_loss y_true y_pred = mae_loss y_true y_pred'"
    if s: "shape y_pred' = shape y_true" and w: "wf_tensor y_pred'"
      and eq: "\<forall>i < length (elems y_true).
               (elems y_true ! i \<noteq> Fin 0 \<longrightarrow> elems y_pred ! i = elems y_pred' ! i)
             \<and> (elems y_true ! i = Fin 0 \<longrightarrow>
                   is_finite (f_mul (f_sub (elems y_true ! i) (elems y_pred ! i))
                                    (f_sub (elems y_true ! i) (elems y_pred ! i)))
                 \<and> is_finite (f_mul (f_sub (elems y_true ! i) (elems y_pred' ! i))
                                    (f_sub (elems y_true ! i) (elems y_pred' ! i))))"
  proof -
    have len': "length (elems y_true) = length (elems y_pred')"
      using s w assms(2) by (simp add: wf_tensor_def)
    have "mae_loss y_true y_pred' =
     Inr (reduce_mean (Tensor (shape y_true)
            (map2 (\<lambda>t p. f_mul (f_mul (f_sub t p) (f_sub t p)) (if t \<noteq> Fin 0 then Fin 1 else Fin 0))
               (elems y_true) (elems y_pred'))))"
      using s[symmetric] len' by (rule mae_loss_equal_shapes)
    then show ?thesis using first masked_terms_cong[OF len len' eq] by simp
  qed
  show ?thesis using first second third by blast
qed

theorem mae_loss_masks_finite_zero_targets_witness:
  "mae_loss (Tensor [1, 4] [Fin 0, Fin 2, Fin 0, Fin 3]) (Tensor [1, 4] [Fin 5, Fin 1, Fin 4, Fin 1])
     = Inr (Fin (5 / 4))
   \<and> mae_loss (Tensor [1, 4] [Fin 0, Fin 2, Fin 0, Fin 3]) (Tensor [1, 4] [Fin 5, Fin 1, Fin 4, Fin 1])
     = mae_loss (Tensor [1, 4] [Fin 0, Fin 2, Fin 0, Fin 3]) (Tensor [1, 4] [Fin 7, Fin 1, Fin 9, Fin 1])"
proof -
  let ?T = "Tensor [1, 4] [Fin 0, Fin 2, Fin 0, Fin 3]"
  let ?P = "Tensor [1, 4] [Fin 5, Fin 1, Fin 4, Fin 1]"
  let ?Q = "Tensor [1, 4] [Fin 7, Fin 1, Fin 9, Fin 1]"
  have a: "shape ?T = shape ?P" by simp
  have b: "wf_tensor ?T" by (simp add: wf_tensor_def)
  have c: "wf_tensor ?P" by (simp add: wf_tensor_def)
  have s5: "f_mul (f_sub (Fin 0) (Fin 5)) (f_sub (Fin 0) (Fin 5)) = Fin 25" by code_simp
  have s4: "f_mul (f_sub (Fin 0) (Fin 4)) (f_sub (Fin 0) (Fin 4)) = Fin 16" by code_simp
  have s7: "f_mul (f_sub (Fin 0) (Fin 7)) (f_sub (Fin 0) (Fin 7)) = Fin 49" by code_simp
  have s9: "f_mul (f_sub (Fin 0) (Fin 9)) (f_sub (Fin 0) (Fin 9)) = Fin 81" by code_simp
  have d: "shape ?Q = shape ?T \<and> wf_tensor ?Q
     \<and> (\<forall>i < length (elems ?T).
           (elems ?T ! i \<noteq> Fin 0 \<longrightarrow> elems ?P ! i = elems ?Q ! i)
         \<and> (elems ?T ! i = Fin 0 \<longrightarrow>
               is_finite (f_mul (f_sub (elems ?T ! i) (elems ?P ! i)) (f_sub (elems ?T ! i) (elems ?P ! i)))
             \<and> is_finite (f_mul (f_sub (elems ?T ! i) (elems ?Q ! i)) (f_sub (elems ?T ! i) (elems ?Q ! i)))))"
    by (simp add: wf_tensor_def less_Suc_eq numeral_eq_Suc all_conj_distrib s5 s4 s7 s9
        is_finite_def)
  note r = mae_loss_masks_finite_zero_targets [OF a b c, of ?Q]
  have v: "reduce_mean (Tensor (shape ?T)
            (map2 (\<lambda>t p. f_mul (f_mul (f_sub t p) (f_sub t p)) (if t \<noteq> Fin 0 then Fin 1 else Fin 0))
               (elems ?T) (elems ?P))) = Fin (5 / 4)"
    by code_simp
  have first: "mae_loss ?T ?P = Inr (Fin (5 / 4))"
    using r [THEN conjunct1] by (simp only: v)
  have second: "mae_loss ?T ?P = mae_loss ?T ?Q"
    using r [THEN conjunct2, THEN conjunct2] d by blast
  show ?thesis using first second by (rule conjI)
qed

text \<open>
  C7, as stated, fails. With the targets \<open>[0, 2]\<close> the prediction \<open>[1e20, 1]\<close> (its float32
  value) has the loss not-a-number: the squared difference at the zero target overflows to
  infinity, and infinity times the mask 0 is not a number. The prediction \<open>[5, 1]\<close>, which
  differs only at the zero target, has the loss 1/2.
\<close>

theorem mae_loss_zero_target_overflow_gives_nan:
  "mae_loss (Tensor [1, 2] [Fin 0, Fin 2]) (Tensor [1, 2] [Fin 100000002004087734272, Fin 1])
     = Inr NaN
   \<and> mae_loss (Tensor [1, 2] [Fin 0, Fin 2]) (Tensor [1, 2] [Fin 5, Fin 1]) = Inr (Fin (1 / 2))"
  by code_simp

section \<open>The positional embedding\<close>

lemma tiled_row:
  assumes "length P = K * W" and "b < B" and "j < K"
  shows "take W (drop ((b * K + j) * W) (concat (replicate B P))) = take W (drop (j * W) P)"
  using assms(2)
proof (induction B arbitrary: b)
  case 0
  then show ?case by simp
next
  case (Suc B)
  have jw: "j * W + W \<le> K * W"
  proof -
    have "Suc j * W \<le> K * W" using assms(3) by (intro mult_le_mono1) simp
    then show ?thesis by (simp add: add.commute)
  qed
  show ?case
  proof (cases b)
    case 0
    have "W \<le> length (drop (j * W) P)" using jw assms(1) by simp
    then show ?thesis using 0 jw assms(1) by simp
  next
    case (Suc b')
    then have b': "b' < B" using Suc.prems by simp
    have "(b * K + j) * W = length P + (b' * K + j) * W"
      using Suc assms(1) by (simp add: algebra_simps)
    then show ?thesis using Suc.IH[OF b'] by simp
  qed
qed

lemma take_drop_map2:
  "take n (drop k (map2 f xs ys)) = map2 f (take n (drop k xs)) (take n (drop k ys))"
  by (simp add: take_map drop_map take_zip drop_zip)

lemma slice_first_table:
  assumes "shape pos = [N, W]" and "K \<le> N"
  shows "slice_first K pos = Tensor [K, W] (take (K * W) (elems pos))"
  using assms by (simp add: slice_first_def min_def)

lemma add_positional_value:
  assumes "shape masked_x = [B, K, W]" and "shape pos = [N, W]" and "K \<le> N"
  shows "add_positional pos masked_x =
     Inr (Tensor [B, K, W] (map2 (+) (elems masked_x) (concat (replicate B (take (K * W) (elems pos))))))"
  using assms by (simp add: add_positional_def slice_first_table tf_add_def tf_binop_def)

text \<open>
  The positional step as it is written, \<open>masked_x + pos_embed[:tf.shape(masked_x)[1]]\<close>:
  for a sequence of shape \<open>[B, K, W]\<close> and a table of shape \<open>[N, W]\<close> with \<open>K \<le> N\<close>, the
  vector at position \<open>j\<close> of every sample receives row \<open>j\<close> of the table.
\<close>

lemma positional_row_by_kept_position:
  assumes "shape masked_x = [B, K, W]" and "shape pos = [N, W]" and "wf_tensor pos"
    and "K \<le> N" and "b < B" and "j < K"
  shows "\<exists>y. add_positional pos masked_x = Inr y \<and> shape y = [B, K, W]
           \<and> seq_row y b j = map2 (+) (seq_row masked_x b j) (table_row pos j)"
proof -
  let ?P = "take (K * W) (elems pos)"
  let ?y = "Tensor [B, K, W] (map2 (+) (elems masked_x) (concat (replicate B ?P)))"
  have lenpos: "length (elems pos) = N * W" using assms(2,3) by (simp add: wf_tensor_def)
  have "K * W \<le> N * W" using assms(4) by (rule mult_le_mono1)
  then have lenP: "length ?P = K * W" using lenpos by simp
  have jw: "j * W + W \<le> K * W"
  proof -
    have "Suc j * W \<le> K * W" using assms(6) by (intro mult_le_mono1) simp
    then show ?thesis by (simp add: add.commute)
  qed
  have row: "take W (drop (j * W) ?P) = table_row pos j"
    using jw assms(2) by (simp add: table_row_def drop_take min_def)
  have "seq_row ?y b j = map2 (+) (seq_row masked_x b j) (take W (drop ((b * K + j) * W) (concat (replicate B ?P))))"
    using assms(1) by (simp add: seq_row_def Let_def take_drop_map2)
  also have "take W (drop ((b * K + j) * W) (concat (replicate B ?P))) = take W (drop (j * W) ?P)"
    using lenP assms(5,6) by (rule tiled_row)
  finally have "seq_row ?y b j = map2 (+) (seq_row masked_x b j) (table_row pos j)"
    using row by simp
  then show ?thesis using add_positional_value[OF assms(1,2,4)] by simp
qed

text \<open>
  C9. In the default configuration, input shape \<open>(23, 4)\<close> and mask ratio 0.75, the encoder
  raises on a batch of one sample in the masking stage, at the concatenation of
  \<open>batch_range\<close> with the 5 kept indices: the positional step is not reached, and no
  row of the table is added to a kept patch.
\<close>

theorem encoder_raises_before_positional_embedding:
  "encoder_forward (m\<lparr>input_shape := (23, 4), mask_ratio := 3 / 4, embed_kernel := Tensor [4, 64] ks\<rparr>)
     rng (Tensor [1, 23, 4] es)
   = Inl (ConcatRankMismatch [1, 1] [1, 5, 1])"
  by (simp add: encoder_forward_def dense_def bind_err_def random_masking_def keep_width_default
      of_rows_def tf_concat_last_def rank_def Let_def)

section \<open>The checkpoint of supervised training\<close>

text \<open>
  C5. Training in mode \<open>linear\<close> builds the head with \<open>trainable=False\<close>, whose layer list
  has the \<open>Lambda\<close> layer at index 2; \<open>finetune\<close> looks at index 1, finds the pooling
  layer, marks the encoder trainable and names the checkpoint \<open>finetune_model.h5\<close>.
\<close>

theorem linear_mode_checkpoint_is_finetune_model:
  "snd (train m ''linear'') = os_path_join (model_dir m) ''finetune_model.h5''
   \<and> classifier (fst (train m ''linear'')) = [InputLayer, GlobalAveragePooling1D, Lambda, DenseLayer]
   \<and> encoder_trainable (fst (train m ''linear''))"
  by (simp add: train_def finetune_def add_classification_head_def Let_def)

lemma fine_tune_mode_checkpoint:
  "snd (train m ''fine-tune'') = os_path_join (model_dir m) ''finetune_model.h5''"
  by (simp add: train_def finetune_def add_classification_head_def Let_def)

lemma head_never_has_lambda_at_index_1: "add_classification_head trainable ! 1 \<noteq> Lambda"
  by (simp add: add_classification_head_def)

section \<open>The patch stage of ViT\<close>

text \<open>
  C4. For the configured input shape \<open>(23, 4)\<close> the positional table has
  \<open>num_patches = 20\<close> rows, and the reshape of \<open>Patches\<close> raises on a batch of one such
  sample: its 92 values are not a multiple of the 16 values of a patch row.
\<close>

theorem patch_stage_raises_on_configured_shape:
  "num_patches (23, 4) = 20
   \<and> patch_stage pe (Tensor [1, 23, 4] es) = Inl (ReshapeError 92 [1, - 1, 16])"
  by (simp add: num_patches_def patch_stage_def patches_call_def tf_reshape_def bind_err_def
      Let_def)

lemma patches_call_divisible_shape:
  "num_patches (24, 4) = 24 \<and> patches_call 4 (Tensor [1, 24, 4] es) = Inr (Tensor [1, 6, 16] es)"
  by (simp add: num_patches_def patches_call_def tf_reshape_def Let_def)

section \<open>Evaluating a loaded ViT\<close>

lemma vit_train_fits_encoder:
  "vit_train v y_train y_val = Inr v' \<Longrightarrow> vit_encoder v' = Some (sort (remdups y_train))"
  by (auto simp add: vit_train_def fit_transform_def bind_err_def Let_def split: sum.splits)


text \<open>
  C10. A ViT returned by \<open>load\<close> has a label encoder that was never fitted, and
  \<open>evaluate\<close> on it raises the not-fitted error of the label encoder's transform before
  the prediction, the metrics or the visualisation are called.
\<close>

theorem evaluate_after_load_not_fitted:
  assumes "vit_load files built model_path = Inr v"
  shows "vit_encoder v = None
         \<and> vit_evaluate calculate_metrics v x_test y_test = (Inl NotFittedError, [])"
proof -
  from assms obtain model v0 where
    v0: "vit_init built (tl (km_input_shape model)) (last (km_output_shape model))
           ''saved_models/vit'' = Inr v0"
    and v: "v = v0\<lparr>vit_model := model\<rparr>"
    by (auto simp add: vit_load_def bind_err_def split: option.splits sum.splits)
  from v0 have "vit_encoder v0 = None"
    by (auto simp add: vit_init_def split: if_splits)
  with v have enc: "vit_encoder v = None" by simp
  then show ?thesis by (simp add: vit_evaluate_def transform_def)
qed

theorem evaluate_after_load_not_fitted_witness:
  "vit_load [''vit_model.h5'' \<mapsto> \<lparr>km_input_shape = [0, 24, 1], km_output_shape = [0, 7], km_predict = Inr\<rparr>]
       \<lparr>km_input_shape = [0, 24, 1], km_output_shape = [0, 7], km_predict = Inr\<rparr> ''vit_model.h5''
     = Inr \<lparr>vit_input_shape = [24, 1], vit_num_classes = 7, vit_model_dir = ''saved_models/vit'',
            vit_model = \<lparr>km_input_shape = [0, 24, 1], km_output_shape = [0, 7], km_predict = Inr\<rparr>,
            vit_encoder = None\<rparr>
   \<and> vit_evaluate (\<lambda>y_true y_pred. (y_true, y_pred))
        \<lparr>vit_input_shape = [24, 1], vit_num_classes = 7, vit_model_dir = ''saved_models/vit'',
            vit_model = \<lparr>km_input_shape = [0, 24, 1], km_output_shape = [0, 7], km_predict = Inr\<rparr>,
            vit_encoder = None\<rparr> (Tensor [1, 24, 1] (replicate 24 0)) [3]
     = (Inl NotFittedError, [])"
proof -
  have h: "vit_load [''vit_model.h5'' \<mapsto> \<lparr>km_input_shape = [0, 24, 1], km_output_shape = [0, 7], km_predict = Inr\<rparr>]
       \<lparr>km_input_shape = [0, 24, 1], km_output_shape = [0, 7], km_predict = Inr\<rparr> ''vit_model.h5''
     = Inr \<lparr>vit_input_shape = [24, 1], vit_num_classes = 7, vit_model_dir = ''saved_models/vit'',
            vit_model = \<lparr>km_input_shape = [0, 24, 1], km_output_shape = [0, 7], km_predict = Inr\<rparr>,
            vit_encoder = None\<rparr>"
    by (simp add: vit_load_def vit_init_def num_patches_def bind_err_def)
  show ?thesis using h evaluate_after_load_not_fitted [OF h] by simp
qed

end
